theory Spec2Isabelle
  imports Main "HOL-Library.Sublist" "HOL-Library.Product_Lexorder" "HOL-Library.Multiset"
begin

section \<open>Dates and times as the task code uses them\<close>

text \<open>
  The task code works on Python's naive \<^verbatim>\<open>datetime\<close> values. A date is kept here as its
  proleptic Gregorian ordinal (\<^verbatim>\<open>date.toordinal()\<close>: 1 is 0001-01-01, 3652059 is
  9999-12-31), which is how the library itself adds a \<^verbatim>\<open>timedelta\<close>, compares dates and
  computes \<^verbatim>\<open>weekday()\<close>; year, month and day are read off the ordinal with the
  library's own conversion. The time of day is kept field by field.
\<close>

definition MAXORDINAL :: int where
  "MAXORDINAL = 3652059"

definition DAYS_IN_MONTH :: "int list" where
  "DAYS_IN_MONTH = [-1, 31, 28, 31, 30, 31, 30, 31, 31, 30, 31, 30, 31]"

definition DAYS_BEFORE_MONTH :: "int list" where
  "DAYS_BEFORE_MONTH = [-1, 0, 31, 59, 90, 120, 151, 181, 212, 243, 273, 304, 334]"

definition is_leap :: "int \<Rightarrow> bool" where
  "is_leap year = (year mod 4 = 0 \<and> (year mod 100 \<noteq> 0 \<or> year mod 400 = 0))"

definition days_before_year :: "int \<Rightarrow> int" where
  "days_before_year year =
     (let y = year - 1 in y * 365 + y div 4 - y div 100 + y div 400)"

definition days_in_month :: "int \<Rightarrow> int \<Rightarrow> int" where
  "days_in_month year month =
     (if month = 2 \<and> is_leap year then 29 else DAYS_IN_MONTH ! nat month)"

definition days_before_month :: "int \<Rightarrow> int \<Rightarrow> int" where
  "days_before_month year month =
     DAYS_BEFORE_MONTH ! nat month + (if month > 2 \<and> is_leap year then 1 else 0)"

definition ymd2ord :: "int \<Rightarrow> int \<Rightarrow> int \<Rightarrow> int" where
  "ymd2ord year month day = days_before_year year + days_before_month year month + day"

definition ord2ymd :: "int \<Rightarrow> int \<times> int \<times> int" where
  "ord2ymd n0 =
     (let n = n0 - 1;
          n400 = n div 146097; n = n mod 146097;
          n100 = n div 36524; n = n mod 36524;
          n4 = n div 1461; n = n mod 1461;
          n1 = n div 365; n = n mod 365;
          year = n400 * 400 + 1 + n100 * 100 + n4 * 4 + n1
      in if n1 = 4 \<or> n100 = 4 then (year - 1, 12, 31)
         else
           (let leapyear = (n1 = 3 \<and> (n4 \<noteq> 24 \<or> n100 = 3));
                month = (n + 50) div 32;
                preceding = DAYS_BEFORE_MONTH ! nat month
                            + (if month > 2 \<and> leapyear then 1 else 0)
            in if preceding > n
               then (let month' = month - 1;
                         preceding' = preceding
                            - (DAYS_IN_MONTH ! nat month'
                               + (if month' = 2 \<and> leapyear then 1 else 0))
                     in (year, month', n - preceding' + 1))
               else (year, month, n - preceding + 1)))"

record datetime =
  date_ord :: int
  hour :: int
  minute :: int
  second :: int
  microsecond :: int


definition year :: "datetime \<Rightarrow> int" where
  "year d = fst (ord2ymd (date_ord d))"

definition month :: "datetime \<Rightarrow> int" where
  "month d = fst (snd (ord2ymd (date_ord d)))"

definition day :: "datetime \<Rightarrow> int" where
  "day d = snd (snd (ord2ymd (date_ord d)))"

text \<open>\<^verbatim>\<open>weekday()\<close>: Monday is 0, Sunday is 6.\<close>

definition weekday :: "datetime \<Rightarrow> int" where
  "weekday d = (date_ord d + 6) mod 7"

text \<open>
  What the date code can raise. \<^verbatim>\<open>ValueError_field\<close> is the \<^verbatim>\<open>ValueError\<close> of the
  \<^verbatim>\<open>datetime\<close> constructor behind \<^verbatim>\<open>replace\<close> (a year, month or day out of range);
  \<^verbatim>\<open>ValueError_parse s\<close> is the parser's own
  \<^verbatim>\<open>ValueError(f"Could not parse date: {date_str}")\<close>; \<^verbatim>\<open>OverflowError\<close> is raised
  by \<^verbatim>\<open>timedelta\<close> and by date arithmetic that leaves years 1..9999.
\<close>

datatype date_error = ValueError_field | ValueError_parse string | OverflowError

definition mk_datetime ::
  "int \<Rightarrow> int \<Rightarrow> int \<Rightarrow> int \<Rightarrow> int \<Rightarrow> int \<Rightarrow> int \<Rightarrow> date_error + datetime" where
  "mk_datetime y m d h mi s us =
     (if 1 \<le> y \<and> y \<le> 9999 \<and> 1 \<le> m \<and> m \<le> 12 \<and> 1 \<le> d \<and> d \<le> days_in_month y m
         \<and> 0 \<le> h \<and> h \<le> 23 \<and> 0 \<le> mi \<and> mi \<le> 59 \<and> 0 \<le> s \<and> s \<le> 59
         \<and> 0 \<le> us \<and> us \<le> 999999
      then Inr \<lparr>date_ord = ymd2ord y m d, hour = h, minute = mi, second = s, microsecond = us\<rparr>
      else Inl ValueError_field)"

text \<open>
  \<^verbatim>\<open>dt.replace(year=.., month=.., hour=23, minute=59, second=59)\<close>: the constructor is run
  again on the old day, the old microsecond and the new fields.
\<close>

definition replace_year_month_eod :: "datetime \<Rightarrow> int \<Rightarrow> int \<Rightarrow> date_error + datetime" where
  "replace_year_month_eod dt y m = mk_datetime y m (day dt) 23 59 59 (microsecond dt)"

text \<open>\<^verbatim>\<open>dt.replace(hour=23, minute=59, second=59)\<close>: date and microsecond stay.\<close>

definition replace_eod :: "datetime \<Rightarrow> datetime" where
  "replace_eod dt = dt\<lparr>hour := 23, minute := 59, second := 59\<rparr>"

text \<open>
  \<^verbatim>\<open>dt + timedelta(days=n)\<close>: \<^verbatim>\<open>timedelta\<close> refuses more than 999999999 days, and the
  sum must be a date of years 1..9999.
\<close>

definition add_days :: "datetime \<Rightarrow> int \<Rightarrow> date_error + datetime" where
  "add_days dt n =
     (if 999999999 < \<bar>n\<bar> then Inl OverflowError
      else if 0 < date_ord dt + n \<and> date_ord dt + n \<le> MAXORDINAL
           then Inr (dt\<lparr>date_ord := date_ord dt + n\<rparr>)
           else Inl OverflowError)"

section \<open>The date-phrase parser (\<^verbatim>\<open>TaskManager._parse_date\<close>)\<close>

text \<open>
  Strings are byte strings, and \<^verbatim>\<open>lower()\<close>, \<^verbatim>\<open>strip()\<close> and the regular expression's
  \<^verbatim>\<open>\d\<close> are modelled on ASCII, which is all the phrases the parser recognises are made
  of: they are Python's on every ASCII string. On other input Python also lowers letters
  beyond \<^verbatim>\<open>A\<close>-\<^verbatim>\<open>Z\<close>, strips Unicode spaces and takes other decimal digits; the properties
  below are about ASCII input only.
\<close>

definition lower_char :: "char \<Rightarrow> char" where
  "lower_char c =
     (case map_of (zip ''ABCDEFGHIJKLMNOPQRSTUVWXYZ'' ''abcdefghijklmnopqrstuvwxyz'') c of
        Some l \<Rightarrow> l | None \<Rightarrow> c)"

definition lower :: "string \<Rightarrow> string" where
  "lower s = map lower_char s"

definition is_space :: "char \<Rightarrow> bool" where
  "is_space c = (c \<in> set [CHR 0x09, CHR 0x0A, CHR 0x0B, CHR 0x0C, CHR 0x0D,
                          CHR 0x1C, CHR 0x1D, CHR 0x1E, CHR 0x1F, CHR 0x20])"

definition strip :: "string \<Rightarrow> string" where
  "strip s = rev (dropWhile is_space (rev (dropWhile is_space s)))"

definition is_digit :: "char \<Rightarrow> bool" where
  "is_digit c = (c \<in> set ''0123456789'')"

definition digit_val :: "char \<Rightarrow> int" where
  "digit_val c = (case map_of (zip ''0123456789'' [0, 1, 2, 3, 4, 5, 6, 7, 8, 9]) c of
                    Some v \<Rightarrow> v | None \<Rightarrow> 0)"

text \<open>\<^verbatim>\<open>int(s)\<close> on a run of decimal digits.\<close>

definition int_of_digits :: "string \<Rightarrow> int" where
  "int_of_digits ds = foldl (\<lambda>a c. 10 * a + digit_val c) 0 ds"

text \<open>\<^verbatim>\<open>sub in s\<close> on strings.\<close>

fun str_in :: "string \<Rightarrow> string \<Rightarrow> bool" where
  "str_in sub [] = (sub = [])"
| "str_in sub (c # cs) = (prefix sub (c # cs) \<or> str_in sub cs)"

text \<open>
  \<^verbatim>\<open>re.match(r"in (\d+) (day|days|week|weeks|month|months)", date_str)\<close>: the match is
  anchored at the start only, the digit run is taken whole (a space must follow it), and the
  alternation yields its first alternative that fits. The result is the pair of groups.
\<close>

definition match_in_pattern :: "string \<Rightarrow> (string \<times> string) option" where
  "match_in_pattern s =
     (if prefix ''in '' s
      then (let r = drop 3 s; ds = takeWhile is_digit r; r' = dropWhile is_digit r
            in if ds \<noteq> [] \<and> prefix '' '' r'
               then (case find (\<lambda>u. prefix u (drop 1 r'))
                            [''day'', ''days'', ''week'', ''weeks'', ''month'', ''months''] of
                       Some u \<Rightarrow> Some (ds, u)
                     | None \<Rightarrow> None)
               else None)
      else None)"

definition weekday_names :: "string list" where
  "weekday_names =
     [''monday'', ''tuesday'', ''wednesday'', ''thursday'', ''friday'', ''saturday'', ''sunday'']"

text \<open>\<^verbatim>\<open>re.match(r"next (monday|...|sunday)", date_str)\<close>, giving group 1.\<close>

definition match_weekday_pattern :: "string \<Rightarrow> string option" where
  "match_weekday_pattern s =
     (if prefix ''next '' s then find (\<lambda>d. prefix d (drop 5 s)) weekday_names else None)"

definition target_weekday :: "string \<Rightarrow> int option" where
  "target_weekday =
     map_of [(''monday'', 0), (''tuesday'', 1), (''wednesday'', 2), (''thursday'', 3),
             (''friday'', 4), (''saturday'', 5), (''sunday'', 6)]"

definition eod_of :: "date_error + datetime \<Rightarrow> date_error + datetime" where
  "eod_of r = (case r of Inl e \<Rightarrow> Inl e | Inr dt \<Rightarrow> Inr (replace_eod dt))"

text \<open>
  The last resort of the parser is \<^verbatim>\<open>dateutil\<close>'s \<^verbatim>\<open>parser.parse\<close>, which is not part of
  the repository: it is the parameter \<open>dateutil_parse\<close>, \<open>None\<close> when it raises. The
  bare \<^verbatim>\<open>except\<close> turns whatever it raises into the parser's own \<^verbatim>\<open>ValueError\<close>.
\<close>

definition parse_fallback :: "(string \<Rightarrow> datetime option) \<Rightarrow> string \<Rightarrow> date_error + datetime" where
  "parse_fallback dateutil_parse date_str =
     (case dateutil_parse date_str of
        None \<Rightarrow> Inl (ValueError_parse (''Could not parse date: '' @ date_str))
      | Some parsed \<Rightarrow>
          if hour parsed = 0 \<and> minute parsed = 0 then Inr (replace_eod parsed) else Inr parsed)"

definition parse_weekday :: "(string \<Rightarrow> datetime option) \<Rightarrow> datetime \<Rightarrow> string \<Rightarrow> date_error + datetime" where
  "parse_weekday dateutil_parse now date_str =
     (case match_weekday_pattern date_str of
        Some name \<Rightarrow>
          (case target_weekday name of
             Some target \<Rightarrow>
               (let days_ahead = target - weekday now;
                    days_ahead = (if days_ahead \<le> 0 then days_ahead + 7 else days_ahead)
                in eod_of (add_days now days_ahead))
           | None \<Rightarrow> parse_fallback dateutil_parse date_str)
      | None \<Rightarrow> parse_fallback dateutil_parse date_str)"

definition parse_date :: "(string \<Rightarrow> datetime option) \<Rightarrow> datetime \<Rightarrow> string \<Rightarrow> date_error + datetime" where
  "parse_date dateutil_parse now date_str0 =
     (let date_str = strip (lower date_str0) in
      if date_str = ''today'' then Inr (replace_eod now)
      else if date_str = ''tomorrow'' then eod_of (add_days now 1)
      else if date_str = ''yesterday'' then eod_of (add_days now (- 1))
      else if date_str = ''next week'' then eod_of (add_days now 7)
      else if date_str = ''next month'' then
        (if month now = 12 then replace_year_month_eod now (year now + 1) 1
         else replace_year_month_eod now (year now) (month now + 1))
      else
        (case match_in_pattern date_str of
           Some (digits, unit) \<Rightarrow>
             (let amount = int_of_digits digits in
              if str_in ''day'' unit then eod_of (add_days now amount)
              else if str_in ''week'' unit then eod_of (add_days now (7 * amount))
              else if str_in ''month'' unit then eod_of (add_days now (amount * 30))
              else parse_weekday dateutil_parse now date_str)
         | None \<Rightarrow> parse_weekday dateutil_parse now date_str))"

section \<open>Tasks and the query engine over fetched tasks\<close>

text \<open>
  A task carries the fields of \<^verbatim>\<open>models.Task\<close> that the query engine reads. The status
  is the integer of \<^verbatim>\<open>TaskStatus\<close>, the priority the integer of \<^verbatim>\<open>TaskPriority\<close>.
\<close>

record task =
  task_id :: "string option"
  project_id :: string
  title :: string
  due_date :: "datetime option"
  priority :: int
  status :: int

definition TaskStatus_NORMAL :: int where
  "TaskStatus_NORMAL = 0"

definition TaskStatus_COMPLETED :: int where
  "TaskStatus_COMPLETED = 2"

text \<open>\<^verbatim>\<open>today + timedelta(days=n)\<close> on a date, for the small \<open>n\<close> the filter uses.\<close>

definition date_add :: "int \<Rightarrow> int \<Rightarrow> date_error + int" where
  "date_add d n =
     (if 0 < d + n \<and> d + n \<le> MAXORDINAL then Inr (d + n) else Inl OverflowError)"

text \<open>
  The \<^verbatim>\<open>if\<close>/\<^verbatim>\<open>elif\<close> chain of \<^verbatim>\<open>_filter_by_due_date\<close> for one dated task: each
  condition is \<^verbatim>\<open>due_filter == name and <date test>\<close>, so the date arithmetic of a branch
  runs only when the bucket name is that branch's.
\<close>

definition due_tomorrow :: "int \<Rightarrow> string \<Rightarrow> int \<Rightarrow> date_error + bool" where
  "due_tomorrow today due_filter task_date =
     (if due_filter = ''tomorrow''
      then (case date_add today 1 of Inl e \<Rightarrow> Inl e | Inr d \<Rightarrow> Inr (task_date = d))
      else Inr False)"

definition due_week :: "int \<Rightarrow> string \<Rightarrow> int \<Rightarrow> date_error + bool" where
  "due_week today due_filter task_date =
     (if due_filter = ''week''
      then (case date_add today 7 of Inl e \<Rightarrow> Inl e | Inr d \<Rightarrow> Inr (task_date \<le> d))
      else Inr False)"

definition due_selected :: "int \<Rightarrow> string \<Rightarrow> int \<Rightarrow> date_error + bool" where
  "due_selected today due_filter task_date =
     (if due_filter = ''today'' \<and> task_date = today then Inr True
      else (case due_tomorrow today due_filter task_date of
              Inl e \<Rightarrow> Inl e
            | Inr True \<Rightarrow> Inr True
            | Inr False \<Rightarrow>
                (case due_week today due_filter task_date of
                   Inl e \<Rightarrow> Inl e
                 | Inr True \<Rightarrow> Inr True
                 | Inr False \<Rightarrow> Inr (due_filter = ''overdue'' \<and> task_date < today))))"

text \<open>The loop over the tasks, with the list \<^verbatim>\<open>filtered\<close> it appends to.\<close>

fun filter_loop :: "int \<Rightarrow> string \<Rightarrow> task list \<Rightarrow> task list \<Rightarrow> date_error + task list" where
  "filter_loop today due_filter [] filtered = Inr filtered"
| "filter_loop today due_filter (t # ts) filtered =
     (case due_date t of
        None \<Rightarrow> filter_loop today due_filter ts filtered
      | Some dd \<Rightarrow>
          (case due_selected today due_filter (date_ord dd) of
             Inl e \<Rightarrow> Inl e
           | Inr sel \<Rightarrow>
               filter_loop today due_filter ts (if sel then filtered @ [t] else filtered)))"

definition filter_by_due_date :: "datetime \<Rightarrow> task list \<Rightarrow> string \<Rightarrow> date_error + task list" where
  "filter_by_due_date now tasks due_filter = filter_loop (date_ord now) due_filter tasks []"

text \<open>
  \<^verbatim>\<open>list_tasks\<close> fetches through the API client, which is outside the query engine: the
  client is a pair of functions that return the fetched data or the error they raise.
\<close>

record project =
  project_ident :: "string option"
  project_name :: string
  closed :: bool

record 'e client =
  get_projects :: "'e + project list"
  get_project_data :: "string option \<Rightarrow> 'e + task list"

datatype 'e list_error = ClientError 'e | DateError date_error

fun fetch_open_projects :: "'e client \<Rightarrow> project list \<Rightarrow> task list \<Rightarrow> 'e + task list" where
  "fetch_open_projects c [] all_tasks = Inr all_tasks"
| "fetch_open_projects c (p # ps) all_tasks =
     (if closed p then fetch_open_projects c ps all_tasks
      else (case get_project_data c (project_ident p) of
              Inl e \<Rightarrow> Inl e
            | Inr ts \<Rightarrow> fetch_open_projects c ps (all_tasks @ ts)))"

text \<open>Truth value of an optional string argument: \<^verbatim>\<open>None\<close> and \<^verbatim>\<open>""\<close> are false.\<close>

definition truthy :: "string option \<Rightarrow> bool" where
  "truthy x = (case x of None \<Rightarrow> False | Some s \<Rightarrow> s \<noteq> [])"

definition fetch_tasks :: "'e client \<Rightarrow> string option \<Rightarrow> 'e + task list" where
  "fetch_tasks c pid =
     (if truthy pid then get_project_data c pid
      else (case get_projects c of
              Inl e \<Rightarrow> Inl e
            | Inr projects \<Rightarrow> fetch_open_projects c projects []))"

definition apply_due_filter :: "datetime \<Rightarrow> string option \<Rightarrow> task list \<Rightarrow> date_error + task list" where
  "apply_due_filter now due_filter tasks =
     (case due_filter of
        None \<Rightarrow> Inr tasks
      | Some f \<Rightarrow> if f \<noteq> [] then filter_by_due_date now tasks f else Inr tasks)"

definition apply_priority_filter :: "int option \<Rightarrow> task list \<Rightarrow> task list" where
  "apply_priority_filter prio tasks =
     (case prio of None \<Rightarrow> tasks | Some p \<Rightarrow> filter (\<lambda>t. priority t = p) tasks)"

definition apply_status_filter :: "string option \<Rightarrow> task list \<Rightarrow> task list" where
  "apply_status_filter st tasks =
     (case st of
        None \<Rightarrow> tasks
      | Some s \<Rightarrow>
          if s \<noteq> [] then
            (if lower s = ''completed'' then filter (\<lambda>t. status t = TaskStatus_COMPLETED) tasks
             else if lower s = ''open'' then filter (\<lambda>t. status t = TaskStatus_NORMAL) tasks
             else tasks)
          else tasks)"

definition list_tasks ::
  "'e client \<Rightarrow> datetime \<Rightarrow> string option \<Rightarrow> string option \<Rightarrow> int option \<Rightarrow> string option
     \<Rightarrow> 'e list_error + task list" where
  "list_tasks c now pid due_filter prio st =
     (case fetch_tasks c pid of
        Inl e \<Rightarrow> Inl (ClientError e)
      | Inr all_tasks \<Rightarrow>
          (case apply_due_filter now due_filter all_tasks of
             Inl e \<Rightarrow> Inl (DateError e)
           | Inr filtered \<Rightarrow> Inr (apply_status_filter st (apply_priority_filter prio filtered))))"

subsection \<open>The daily plan's order\<close>






text \<open>The removal of duplicates before the sort: the first task of each id is kept.\<close>

fun unique_loop :: "task list \<Rightarrow> string option list \<Rightarrow> task list \<Rightarrow> task list" where
  "unique_loop [] seen_ids unique_tasks = unique_tasks"
| "unique_loop (t # ts) seen_ids unique_tasks =
     (if task_id t \<in> set seen_ids then unique_loop ts seen_ids unique_tasks
      else unique_loop ts (task_id t # seen_ids) (unique_tasks @ [t]))"

section \<open>Token storage (\<^verbatim>\<open>TokenStorage\<close>)\<close>

text \<open>
  \<^verbatim>\<open>load_tokens\<close> reads the token file, decrypts it with the key the storage object holds,
  decodes the bytes and parses the JSON text. Fernet, the decoder and the JSON parser are
  library code: they are parameters, each returning its result or the exception it raises
  (of any type \<open>'e\<close>; JSON \<^verbatim>\<open>null\<close> parses to \<open>None\<close>). The file is \<open>None\<close> when
  \<^verbatim>\<open>storage_path.exists()\<close> is false, and otherwise what opening and reading it gives.
\<close>

type_synonym bytes = string

text \<open>\<^verbatim>\<open>try: body  except Exception as e: handler\<close>.\<close>

definition try_except :: "'e + 'a \<Rightarrow> ('e \<Rightarrow> 'e + 'a) \<Rightarrow> 'e + 'a" where
  "try_except body handler = (case body of Inl e \<Rightarrow> handler e | Inr v \<Rightarrow> Inr v)"

definition read_and_parse ::
  "(bytes \<Rightarrow> 'e + bytes) \<Rightarrow> (bytes \<Rightarrow> 'e + string) \<Rightarrow> (string \<Rightarrow> 'e + 'j option)
     \<Rightarrow> 'e + bytes \<Rightarrow> 'e + 'j option" where
  "read_and_parse decrypt decode json_loads file_read =
     (case file_read of
        Inl e \<Rightarrow> Inl e
      | Inr encrypted \<Rightarrow>
          (case decrypt encrypted of
             Inl e \<Rightarrow> Inl e
           | Inr decrypted \<Rightarrow>
               (case decode decrypted of
                  Inl e \<Rightarrow> Inl e
                | Inr text \<Rightarrow> json_loads text)))"

definition load_tokens ::
  "(bytes \<Rightarrow> 'e + bytes) \<Rightarrow> (bytes \<Rightarrow> 'e + string) \<Rightarrow> (string \<Rightarrow> 'e + 'j option)
     \<Rightarrow> ('e + bytes) option \<Rightarrow> 'e + 'j option" where
  "load_tokens decrypt decode json_loads file =
     (case file of
        None \<Rightarrow> Inr None
      | Some file_read \<Rightarrow>
          try_except (read_and_parse decrypt decode json_loads file_read) (\<lambda>e. Inr None))"

section \<open>The OAuth2 handler (\<^verbatim>\<open>OAuth2Handler\<close>)\<close>

subsection \<open>The cached access token\<close>

text \<open>
  A loaded token dictionary: the three keys the handler reads, and the names of whatever
  other keys the provider's response had.
  \<^item> \<open>access_token\<close> is what \<^verbatim>\<open>tokens.get("access_token")\<close> gives: \<open>None\<close> for a missing
    key and for JSON \<^verbatim>\<open>null\<close>. (A dictionary whose only key is a null \<^verbatim>\<open>access_token\<close> is
    read as the empty one; the handler returns \<^verbatim>\<open>None\<close> without a refresh on both.)
  \<^item> \<open>refresh_token\<close> is \<open>None\<close> when the key is absent (the code tests
    \<^verbatim>\<open>"refresh_token" in tokens\<close>) and otherwise the value under the key, itself \<open>None\<close>
    for JSON \<^verbatim>\<open>null\<close>.
  \<^item> \<open>saved_at\<close> is \<open>None\<close> when the key is absent; the value under the key is kept as
    what \<^verbatim>\<open>datetime.fromisoformat\<close> makes of it: the naive datetime it denotes, as
    \<^verbatim>\<open>save_tokens\<close> writes it, or \<open>NotIso\<close> for any other value, on which the two lines
    that compute the age raise. \<^verbatim>\<open>isoformat\<close> and \<^verbatim>\<open>fromisoformat\<close> are inverse on
    datetimes.
\<close>

datatype iso_text = IsoText datetime | NotIso

record tokens =
  access_token :: "string option"
  refresh_token :: "string option option"
  saved_at :: "iso_text option"
  other_keys :: "string list"

datatype token_error = ValueError_isoformat

definition isoformat :: "datetime \<Rightarrow> iso_text" where
  "isoformat d = IsoText d"

definition fromisoformat :: "iso_text \<Rightarrow> token_error + datetime" where
  "fromisoformat x = (case x of IsoText d \<Rightarrow> Inr d | NotIso \<Rightarrow> Inl ValueError_isoformat)"

text \<open>\<^verbatim>\<open>not tokens\<close>: the dictionary has no key.\<close>

definition tokens_empty :: "tokens \<Rightarrow> bool" where
  "tokens_empty t =
     (access_token t = None \<and> refresh_token t = None \<and> saved_at t = None \<and> other_keys t = [])"

text \<open>The microseconds of \<^verbatim>\<open>a - b\<close> on datetimes, and of \<^verbatim>\<open>timedelta(hours=1)\<close>.\<close>

definition to_micros :: "datetime \<Rightarrow> int" where
  "to_micros d =
     (((date_ord d * 24 + hour d) * 60 + minute d) * 60 + second d) * 1000000 + microsecond d"

definition datetime_diff :: "datetime \<Rightarrow> datetime \<Rightarrow> int" where
  "datetime_diff a b = to_micros a - to_micros b"

definition one_hour :: int where
  "one_hour = 3600000000"

text \<open>
  \<^verbatim>\<open>get_access_token\<close>. The stored record is what \<^verbatim>\<open>load_tokens\<close> returned. The clock is
  read twice: \<open>now1\<close> for the default of a missing \<^verbatim>\<open>saved_at\<close>, \<open>now2\<close> for the age
  test. \<open>refresh\<close> is the call of \<^verbatim>\<open>self.refresh_token\<close>: the new token dictionary, or
  \<open>None\<close> when it raises. The result is the list of arguments \<^verbatim>\<open>self.refresh_token\<close> was
  called with (the values of \<^verbatim>\<open>tokens["refresh_token"]\<close>), and the returned value or the
  exception.
\<close>

definition get_access_token ::
  "(string option \<Rightarrow> tokens option) \<Rightarrow> tokens option \<Rightarrow> datetime \<Rightarrow> datetime
     \<Rightarrow> string option list \<times> (token_error + string option)" where
  "get_access_token refresh stored now1 now2 =
     (case stored of
        None \<Rightarrow> ([], Inr None)
      | Some toks \<Rightarrow>
          if tokens_empty toks then ([], Inr None)
          else
            (case fromisoformat (case saved_at toks of None \<Rightarrow> isoformat now1 | Some x \<Rightarrow> x) of
               Inl e \<Rightarrow> ([], Inl e)
             | Inr saved \<Rightarrow>
                 if datetime_diff now2 saved > one_hour then
                   (case refresh_token toks of
                      Some rt \<Rightarrow>
                        (case refresh rt of
                           None \<Rightarrow> ([rt], Inr None)
                         | Some toks' \<Rightarrow> ([rt], Inr (access_token toks')))
                    | None \<Rightarrow> ([], Inr None))
                 else ([], Inr (access_token toks))))"

subsection \<open>Waiting for the authorization redirect\<close>

text \<open>
  The handler's state: the runner of the local listener (\<^verbatim>\<open>self._server\<close>, with whether
  its socket is still bound) and the two fields the callback writes.
\<close>

datatype listener = Listening | Stopped

record oauth_handler =
  server :: "listener option"
  auth_code :: "string option"
  auth_error :: "string option"

record request =
  query_code :: "string option"
  query_error :: "string option"

datatype auth_error = TimeoutError | AuthorizationError string | BindError

text \<open>\<^verbatim>\<open>_handle_callback\<close>: the response status and the handler after it.\<close>

definition handle_callback :: "oauth_handler \<Rightarrow> request \<Rightarrow> nat \<times> oauth_handler" where
  "handle_callback h req =
     (if truthy (query_error req) then (400, h\<lparr>auth_error := query_error req\<rparr>)
      else if truthy (query_code req) then (200, h\<lparr>auth_code := query_code req\<rparr>)
      else (400, h))"

definition serve :: "oauth_handler \<Rightarrow> request list \<Rightarrow> oauth_handler" where
  "serve h reqs = foldl (\<lambda>h' req. snd (handle_callback h' req)) h reqs"

text \<open>\<^verbatim>\<open>_run_server\<close>: binding fails when the port is taken; otherwise the runner is kept.\<close>

definition run_server :: "bool \<Rightarrow> oauth_handler \<Rightarrow> auth_error + oauth_handler" where
  "run_server port_free h = (if port_free then Inr (h\<lparr>server := Some Listening\<rparr>) else Inl BindError)"

text \<open>\<^verbatim>\<open>if self._server: await self._server.cleanup()\<close>.\<close>

definition cleanup :: "oauth_handler \<Rightarrow> oauth_handler" where
  "cleanup h = (case server h of None \<Rightarrow> h | Some l \<Rightarrow> h\<lparr>server := Some Stopped\<rparr>)"

text \<open>
  One turn of the polling loop is a tick of the environment: the reading of the event
  loop's clock at the timeout test (in milliseconds; the timeout is in seconds), and the
  redirects the listener serves during the \<^verbatim>\<open>asyncio.sleep(0.1)\<close> that follows. The loop
  is run against a list of ticks; \<open>None\<close> means the list ended with the loop still polling.
\<close>

record tick =
  clock :: int
  requests :: "request list"

fun wait_loop ::
  "int \<Rightarrow> int \<Rightarrow> tick list \<Rightarrow> oauth_handler \<Rightarrow> ((auth_error + unit) \<times> oauth_handler) option" where
  "wait_loop timeout start_time [] h =
     (if auth_code h = None \<and> auth_error h = None then None else Some (Inr (), h))"
| "wait_loop timeout start_time (t # ts) h =
     (if auth_code h = None \<and> auth_error h = None
      then (if clock t - start_time > timeout * 1000 then Some (Inl TimeoutError, h)
            else wait_loop timeout start_time ts (serve h (requests t)))
      else Some (Inr (), h))"

definition wait_for_authorization ::
  "bool \<Rightarrow> int \<Rightarrow> int \<Rightarrow> tick list \<Rightarrow> oauth_handler
     \<Rightarrow> ((auth_error + string option) \<times> oauth_handler) option" where
  "wait_for_authorization port_free timeout start_time ticks h =
     (case run_server port_free h of
        Inl e \<Rightarrow> Some (Inl e, h)
      | Inr h1 \<Rightarrow>
          (case wait_loop timeout start_time ticks h1 of
             None \<Rightarrow> None
           | Some (Inl e, h2) \<Rightarrow> Some (Inl e, h2)
           | Some (Inr u, h2) \<Rightarrow>
               (let h3 = cleanup h2 in
                case auth_error h3 of
                  None \<Rightarrow> Some (Inr (auth_code h3), h3)
                | Some err \<Rightarrow>
                    if err \<noteq> []
                    then Some (Inl (AuthorizationError (''Authorization error: '' @ err)), h3)
                    else Some (Inr (auth_code h3), h3))))"

section \<open>Properties of the date-phrase parser\<close>

text \<open>The arithmetic of the days to add, on ordinals.\<close>

lemma next_weekday_arith:
  fixes n k :: int
  assumes "0 \<le> k" and "k \<le> 6"
  defines "w \<equiv> (n + 6) mod 7"
  defines "a \<equiv> (if k - w \<le> 0 then k - w + 7 else k - w)"
  shows "1 \<le> a" and "a \<le> 7" and "(n + a + 6) mod 7 = k"
    and "\<And>j. n < j \<Longrightarrow> j < n + a \<Longrightarrow> (j + 6) mod 7 \<noteq> k"
    and "w = k \<Longrightarrow> a = 7"
proof -
  have w: "0 \<le> w" "w \<le> 6" by (simp_all add: w_def)
  show "1 \<le> a" "a \<le> 7" using w assms(1,2) by (simp_all add: a_def)
  show "w = k \<Longrightarrow> a = 7" by (simp add: a_def)
  have ale: "a \<le> k - w + 7" and apos: "0 < k - w \<Longrightarrow> a = k - w"
    by (simp_all add: a_def)
  obtain q where q: "n + 6 = 7 * q + w"
    unfolding w_def by (metis mult_div_mod_eq)
  have "n + a + 6 = 7 * (q + (if k - w \<le> 0 then 1 else 0)) + k"
    using q by (simp add: a_def)
  then have "(n + a + 6) mod 7 = k mod 7"
    by (metis mod_mult_self4)
  then show "(n + a + 6) mod 7 = k" using assms(1,2) by simp
  show "(j + 6) mod 7 \<noteq> k" if j: "n < j" "j < n + a" for j
  proof
    assume e: "(j + 6) mod 7 = k"
    obtain p where p: "j + 6 = 7 * p + k"
      using e by (metis mult_div_mod_eq)
    define d where "d = p - q"
    have jn: "j - n = 7 * d + (k - w)"
      using p q by (simp add: d_def algebra_simps)
    consider "d \<le> - 1" | "d = 0" | "1 \<le> d" by linarith
    then show False
    proof cases
      case 1
      then have "7 * d \<le> - 7" by simp
      with jn j(1) w assms(1,2) show False by linarith
    next
      case 2
      with jn j(1) have "0 < k - w" by simp
      from apos [OF this] jn 2 j(2) show False by simp
    next
      case 3
      then have "7 \<le> 7 * d" by simp
      with jn j(2) ale show False by linarith
    qed
  qed
qed

text \<open>
  What the parser computes on an input that \<^verbatim>\<open>lower().strip()\<close> turns into
  \<^verbatim>\<open>next <weekday>\<close>, before any date arithmetic.
\<close>

lemma parse_next_weekday_eq:
  assumes "(d, k) \<in> set [(''monday'', 0), (''tuesday'', 1), (''wednesday'', 2),
             (''thursday'', 3), (''friday'', 4), (''saturday'', 5), (''sunday'', 6)]"
      and "strip (lower s) = ''next '' @ d"
  shows "parse_date dateutil_parse now s =
           eod_of (add_days now (if k - weekday now \<le> 0 then k - weekday now + 7
                                 else k - weekday now))"
proof -
  have cases: "(d = ''monday'' \<and> k = 0) \<or> (d = ''tuesday'' \<and> k = 1)
      \<or> (d = ''wednesday'' \<and> k = 2) \<or> (d = ''thursday'' \<and> k = 3)
      \<or> (d = ''friday'' \<and> k = 4) \<or> (d = ''saturday'' \<and> k = 5)
      \<or> (d = ''sunday'' \<and> k = 6)"
    using assms(1) by simp
  show ?thesis
    unfolding parse_date_def assms(2)
    using cases
    by (elim disjE conjE)
       (simp_all add: match_in_pattern_def is_digit_def match_weekday_pattern_def
          weekday_names_def parse_weekday_def target_weekday_def Let_def)
qed

text \<open>
  C6. Let \<open>d\<close> be one of the seven weekday names and \<open>k\<close> its number in the week
  (\<^verbatim>\<open>monday\<close> 0, \<^verbatim>\<open>tuesday\<close> 1, ..., \<^verbatim>\<open>sunday\<close> 6, the numbering of \<^verbatim>\<open>weekday()\<close>).
  For every input that \<^verbatim>\<open>lower().strip()\<close> turns into \<^verbatim>\<open>next d\<close> (such an input is ASCII) and
  every current date that has a day seven days later in the calendar, the parser returns a
  datetime \<open>r\<close> whose weekday is \<open>k\<close>, that lies 1 to 7 days after today, with no day of
  weekday \<open>k\<close> strictly between today and \<open>r\<close>; when today's weekday is \<open>k\<close> it is exactly
  7 days ahead. The time is set to 23:59:59.
\<close>

theorem parse_next_weekday_future:
  assumes "(d, k) \<in> set [(''monday'', 0), (''tuesday'', 1), (''wednesday'', 2),
             (''thursday'', 3), (''friday'', 4), (''saturday'', 5), (''sunday'', 6)]"
      and "strip (lower s) = ''next '' @ d"
      and "0 < date_ord now" and "date_ord now + 7 \<le> MAXORDINAL"
  shows "\<exists>r. parse_date dateutil_parse now s = Inr r
           \<and> weekday r = k \<and> date_ord now < date_ord r \<and> date_ord r \<le> date_ord now + 7
           \<and> (\<forall>j. date_ord now < j \<and> j < date_ord r \<longrightarrow> (j + 6) mod 7 \<noteq> k)
           \<and> (weekday now = k \<longrightarrow> date_ord r = date_ord now + 7)
           \<and> hour r = 23 \<and> minute r = 59 \<and> second r = 59"
proof -
  define a where "a = (if k - weekday now \<le> 0 then k - weekday now + 7 else k - weekday now)"
  have k: "0 \<le> k" "k \<le> 6"
    using assms(1) by auto
  note ar = next_weekday_arith [OF k, of "date_ord now", folded weekday_def, folded a_def]
  have add: "add_days now a = Inr (now\<lparr>date_ord := date_ord now + a\<rparr>)"
    using ar(1,2) assms(3,4) by (simp add: add_days_def)
  define r where "r = replace_eod (now\<lparr>date_ord := date_ord now + a\<rparr>)"
  have res: "parse_date dateutil_parse now s = Inr r"
    unfolding parse_next_weekday_eq [OF assms(1,2)] a_def[symmetric]
    by (simp add: add eod_of_def r_def)
  have ord: "date_ord r = date_ord now + a"
    by (simp add: r_def replace_eod_def)
  have wd: "weekday r = k"
    unfolding weekday_def ord by (rule ar(3))
  have near: "\<forall>j. date_ord now < j \<and> j < date_ord r \<longrightarrow> (j + 6) mod 7 \<noteq> k"
    unfolding ord using ar(4) by blast
  have same: "weekday now = k \<longrightarrow> date_ord r = date_ord now + 7"
    unfolding ord using ar(5) by simp
  have tm: "hour r = 23 \<and> minute r = 59 \<and> second r = 59"
    by (simp add: r_def replace_eod_def)
  have rng: "date_ord now < date_ord r \<and> date_ord r \<le> date_ord now + 7"
    unfolding ord using ar(1,2) by simp
  from res wd rng near same tm show ?thesis
    by blast
qed

theorem parse_next_weekday_future_witness:
  "ord2ymd 738900 = (2024, 1, 15)
   \<and> weekday \<lparr>date_ord = 738900, hour = 10, minute = 30, second = 0, microsecond = 0\<rparr> = 0
   \<and> (\<exists>r. parse_date (\<lambda>s. None)
              \<lparr>date_ord = 738900, hour = 10, minute = 30, second = 0, microsecond = 0\<rparr>
              ''  Next Monday '' = Inr r
          \<and> date_ord r = 738907 \<and> weekday r = 0
          \<and> hour r = 23 \<and> minute r = 59 \<and> second r = 59)
   \<and> (\<exists>r. parse_date (\<lambda>s. None)
              \<lparr>date_ord = 738900, hour = 10, minute = 30, second = 0, microsecond = 0\<rparr>
              ''next sunday'' = Inr r
          \<and> date_ord r = 738906 \<and> weekday r = 6
          \<and> hour r = 23 \<and> minute r = 59 \<and> second r = 59)"
proof -
  let ?now = "\<lparr>date_ord = 738900, hour = 10, minute = 30, second = 0, microsecond = 0\<rparr>"
  let ?names = "[(''monday'', 0::int), (''tuesday'', 1), (''wednesday'', 2),
             (''thursday'', 3), (''friday'', 4), (''saturday'', 5), (''sunday'', 6)]"
  have ymd: "ord2ymd 738900 = (2024, 1, 15)"
    by (simp add: ord2ymd_def Let_def DAYS_BEFORE_MONTH_def DAYS_IN_MONTH_def)
  have m1: "(''monday'', 0) \<in> set ?names"
    by simp
  have m2: "strip (lower ''  Next Monday '') = ''next '' @ ''monday''"
    by (simp add: strip_def lower_def lower_char_def is_space_def)
  have s1: "(''sunday'', 6) \<in> set ?names"
    by simp
  have s2: "strip (lower ''next sunday'') = ''next '' @ ''sunday''"
    by (simp add: strip_def lower_def lower_char_def is_space_def)
  have h3: "0 < date_ord ?now"
    by simp
  have h4: "date_ord ?now + 7 \<le> MAXORDINAL"
    by (simp add: MAXORDINAL_def)
  have wd: "weekday ?now = 0"
    by (simp add: weekday_def)
  have e1: "parse_date (\<lambda>s. None) ?now ''  Next Monday ''
             = Inr \<lparr>date_ord = 738907, hour = 23, minute = 59, second = 59, microsecond = 0\<rparr>"
    unfolding parse_date_def m2
    by (simp add: match_in_pattern_def is_digit_def match_weekday_pattern_def
          weekday_names_def parse_weekday_def target_weekday_def Let_def weekday_def
          add_days_def MAXORDINAL_def eod_of_def replace_eod_def)
  have e2: "parse_date (\<lambda>s. None) ?now ''next sunday''
             = Inr \<lparr>date_ord = 738906, hour = 23, minute = 59, second = 59, microsecond = 0\<rparr>"
    unfolding parse_date_def s2
    by (simp add: match_in_pattern_def is_digit_def match_weekday_pattern_def
          weekday_names_def parse_weekday_def target_weekday_def Let_def weekday_def
          add_days_def MAXORDINAL_def eod_of_def replace_eod_def)
  from parse_next_weekday_future [OF m1 m2 h3 h4, of "\<lambda>s. None"]
  obtain r where r: "parse_date (\<lambda>s. None) ?now ''  Next Monday '' = Inr r"
    "weekday r = 0" "hour r = 23" "minute r = 59" "second r = 59"
    by blast
  from parse_next_weekday_future [OF s1 s2 h3 h4, of "\<lambda>s. None"]
  obtain q where q: "parse_date (\<lambda>s. None) ?now ''next sunday'' = Inr q"
    "weekday q = 6" "hour q = 23" "minute q = 59" "second q = 59"
    by blast
  have r1: "date_ord r = 738907"
    using r(1) e1 by auto
  have q1: "date_ord q = 738906"
    using q(1) e2 by auto
  have c3: "\<exists>r. parse_date (\<lambda>s. None) ?now ''  Next Monday '' = Inr r
          \<and> date_ord r = 738907 \<and> weekday r = 0
          \<and> hour r = 23 \<and> minute r = 59 \<and> second r = 59"
    using r r1 by blast
  have c4: "\<exists>r. parse_date (\<lambda>s. None) ?now ''next sunday'' = Inr r
          \<and> date_ord r = 738906 \<and> weekday r = 6
          \<and> hour r = 23 \<and> minute r = 59 \<and> second r = 59"
    using q q1 by blast
  from ymd wd c3 c4 show ?thesis
    by (intro conjI)
qed

text \<open>
  C8. When the current month is not December and today's day of the month is larger than
  the number of days of the following month, parsing \<^verbatim>\<open>next month\<close> does not return: the
  \<^verbatim>\<open>replace\<close> call raises the constructor's \<^verbatim>\<open>ValueError\<close>, which is neither a date nor
  the parser's own could-not-parse error.
\<close>

theorem parse_next_month_raises:
  assumes "month now \<noteq> 12" and "days_in_month (year now) (month now + 1) < day now"
  shows "parse_date dateutil_parse now ''next month'' = Inl ValueError_field"
  using assms
  by (simp add: parse_date_def lower_def lower_char_def strip_def is_space_def
      replace_year_month_eod_def mk_datetime_def)

theorem parse_next_month_raises_witness:
  "ord2ymd 738551 = (2023, 1, 31)
   \<and> days_in_month 2023 2 = 28
   \<and> parse_date (\<lambda>s. None)
        \<lparr>date_ord = 738551, hour = 9, minute = 0, second = 0, microsecond = 0\<rparr> ''next month''
       = Inl ValueError_field"
proof -
  let ?now = "\<lparr>date_ord = 738551, hour = 9, minute = 0, second = 0, microsecond = 0\<rparr>"
  have ymd: "ord2ymd 738551 = (2023, 1, 31)"
    by (simp add: ord2ymd_def Let_def DAYS_BEFORE_MONTH_def DAYS_IN_MONTH_def)
  have dim: "days_in_month 2023 2 = 28"
    by (simp add: days_in_month_def is_leap_def DAYS_IN_MONTH_def)
  have h1: "month ?now \<noteq> 12"
    by (simp add: month_def ymd)
  have h2: "days_in_month (year ?now) (month ?now + 1) < day ?now"
    by (simp add: month_def year_def day_def ymd dim)
  from parse_next_month_raises [OF h1 h2, of "\<lambda>s. None"] ymd dim show ?thesis
    by simp
qed

text \<open>
  C5. On \<^verbatim>\<open>in 3 days\<close> the parser returns the day three days ahead at 23:59:59 with the
  microsecond of the current time, since \<^verbatim>\<open>replace(hour=23, minute=59, second=59)\<close> leaves
  the microsecond as it is. An explicit date that \<^verbatim>\<open>dateutil\<close> parses to midnight comes back
  at 23:59:59 with microsecond 0, so the two results differ whenever the clock's
  microsecond is not 0.
\<close>

theorem parse_in_3_days_keeps_microsecond:
  assumes "0 < date_ord now" and "date_ord now + 3 \<le> MAXORDINAL"
  shows "parse_date dateutil_parse now ''in 3 days'' =
           Inr \<lparr>date_ord = date_ord now + 3, hour = 23, minute = 59, second = 59,
                microsecond = microsecond now\<rparr>"
proof -
  have n: "strip (lower ''in 3 days'') = ''in 3 days''"
    by (simp add: strip_def lower_def lower_char_def is_space_def)
  have m: "match_in_pattern ''in 3 days'' = Some (''3'', ''day'')"
    by (simp add: match_in_pattern_def is_digit_def)
  have a: "int_of_digits ''3'' = 3"
    by (simp add: int_of_digits_def digit_val_def)
  have "parse_date dateutil_parse now ''in 3 days'' = eod_of (add_days now 3)"
    unfolding parse_date_def n by (simp add: m a)
  also have "\<dots> = Inr (replace_eod (now\<lparr>date_ord := date_ord now + 3\<rparr>))"
    using assms by (simp add: add_days_def eod_of_def)
  also have "replace_eod (now\<lparr>date_ord := date_ord now + 3\<rparr>) =
      \<lparr>date_ord = date_ord now + 3, hour = 23, minute = 59, second = 59,
       microsecond = microsecond now\<rparr>"
    by (simp add: replace_eod_def)
  finally show ?thesis .
qed

theorem parse_in_3_days_keeps_microsecond_witness:
  "ord2ymd 738900 = (2024, 1, 15) \<and> ord2ymd 738903 = (2024, 1, 18)
   \<and> parse_date
        (\<lambda>s. if s = ''2024-01-18''
              then Some \<lparr>date_ord = 738903, hour = 0, minute = 0, second = 0, microsecond = 0\<rparr>
              else None)
        \<lparr>date_ord = 738900, hour = 10, minute = 30, second = 0, microsecond = 1\<rparr>
        ''in 3 days''
      = Inr \<lparr>date_ord = 738903, hour = 23, minute = 59, second = 59, microsecond = 1\<rparr>
   \<and> parse_date
        (\<lambda>s. if s = ''2024-01-18''
              then Some \<lparr>date_ord = 738903, hour = 0, minute = 0, second = 0, microsecond = 0\<rparr>
              else None)
        \<lparr>date_ord = 738900, hour = 10, minute = 30, second = 0, microsecond = 1\<rparr>
        ''2024-01-18''
      = Inr \<lparr>date_ord = 738903, hour = 23, minute = 59, second = 59, microsecond = 0\<rparr>"
  (is "_ \<and> _ \<and> parse_date ?dp ?now _ = _ \<and> _")
proof -
  have y1: "ord2ymd 738900 = (2024, 1, 15)"
    by (simp add: ord2ymd_def Let_def DAYS_BEFORE_MONTH_def DAYS_IN_MONTH_def)
  have y2: "ord2ymd 738903 = (2024, 1, 18)"
    by (simp add: ord2ymd_def Let_def DAYS_BEFORE_MONTH_def DAYS_IN_MONTH_def)
  have h1: "0 < date_ord ?now"
    by simp
  have h2: "date_ord ?now + 3 \<le> MAXORDINAL"
    by (simp add: MAXORDINAL_def)
  have rel: "parse_date ?dp ?now ''in 3 days''
      = Inr \<lparr>date_ord = 738903, hour = 23, minute = 59, second = 59, microsecond = 1\<rparr>"
    using parse_in_3_days_keeps_microsecond [OF h1 h2, of ?dp] by simp
  have n: "strip (lower ''2024-01-18'') = ''2024-01-18''"
    by (simp add: strip_def lower_def lower_char_def is_space_def)
  have expl: "parse_date ?dp ?now ''2024-01-18''
      = Inr \<lparr>date_ord = 738903, hour = 23, minute = 59, second = 59, microsecond = 0\<rparr>"
    unfolding parse_date_def n
    by (simp add: match_in_pattern_def match_weekday_pattern_def parse_weekday_def
          parse_fallback_def replace_eod_def)
  from y1 y2 rel expl show ?thesis
    by (intro conjI)
qed

section \<open>Properties of the query engine\<close>

lemma filter_loop_eq:
  assumes "\<And>td. due_selected today f td = Inr (P td)"
  shows "filter_loop today f ts acc =
     Inr (acc @ filter (\<lambda>t. case due_date t of None \<Rightarrow> False | Some d \<Rightarrow> P (date_ord d)) ts)"
  by (induction ts arbitrary: acc) (simp_all add: assms split: option.splits)

lemma due_selected_today: "due_selected today ''today'' td = Inr (td = today)"
  by (simp add: due_selected_def due_tomorrow_def due_week_def)

lemma due_selected_overdue: "due_selected today ''overdue'' td = Inr (td < today)"
  by (simp add: due_selected_def due_tomorrow_def due_week_def)

lemma due_selected_tomorrow:
  "0 < today \<Longrightarrow> today + 1 \<le> MAXORDINAL \<Longrightarrow> due_selected today ''tomorrow'' td = Inr (td = today + 1)"
  by (simp add: due_selected_def due_tomorrow_def due_week_def date_add_def split: bool.splits)

lemma due_selected_week:
  "0 < today \<Longrightarrow> today + 7 \<le> MAXORDINAL \<Longrightarrow> due_selected today ''week'' td = Inr (td \<le> today + 7)"
  by (simp add: due_selected_def due_tomorrow_def due_week_def date_add_def split: bool.splits)

text \<open>Only tasks with a due date are ever appended.\<close>

lemma filter_loop_dated:
  "filter_loop today f ts acc = Inr out \<Longrightarrow> \<forall>t \<in> set acc. due_date t \<noteq> None
     \<Longrightarrow> \<forall>t \<in> set out. due_date t \<noteq> None"
proof (induction ts arbitrary: acc)
  case Nil
  then show ?case by simp
next
  case (Cons t ts)
  show ?case
  proof (cases "due_date t")
    case None
    with Cons show ?thesis by simp
  next
    case (Some dd)
    with Cons.prems obtain sel where
      s: "due_selected today f (date_ord dd) = Inr sel"
      and l: "filter_loop today f ts (if sel then acc @ [t] else acc) = Inr out"
      by (auto split: sum.splits)
    have "\<forall>t \<in> set (if sel then acc @ [t] else acc). due_date t \<noteq> None"
      using Cons.prems(2) Some by auto
    from Cons.IH [OF l this] show ?thesis .
  qed
qed

text \<open>
  C3. For every task list the due-date filter returns, in the order of the input, exactly
  the tasks whose due date is today (bucket \<^verbatim>\<open>today\<close>), today + 1 (\<^verbatim>\<open>tomorrow\<close>), at most
  today + 7 with no lower bound (\<^verbatim>\<open>week\<close>), or before today (\<^verbatim>\<open>overdue\<close>); and whatever the
  bucket name, no task without a due date is in the result. (For \<^verbatim>\<open>tomorrow\<close> and
  \<^verbatim>\<open>week\<close> the day today + 1, today + 7 must exist in the calendar.)
\<close>

theorem filter_by_due_date_buckets:
  assumes "0 < date_ord now"
  shows "filter_by_due_date now tasks ''today'' =
           Inr (filter (\<lambda>t. case due_date t of None \<Rightarrow> False
                             | Some d \<Rightarrow> date_ord d = date_ord now) tasks)
       \<and> (date_ord now + 1 \<le> MAXORDINAL \<longrightarrow>
            filter_by_due_date now tasks ''tomorrow'' =
              Inr (filter (\<lambda>t. case due_date t of None \<Rightarrow> False
                                | Some d \<Rightarrow> date_ord d = date_ord now + 1) tasks))
       \<and> (date_ord now + 7 \<le> MAXORDINAL \<longrightarrow>
            filter_by_due_date now tasks ''week'' =
              Inr (filter (\<lambda>t. case due_date t of None \<Rightarrow> False
                                | Some d \<Rightarrow> date_ord d \<le> date_ord now + 7) tasks))
       \<and> filter_by_due_date now tasks ''overdue'' =
           Inr (filter (\<lambda>t. case due_date t of None \<Rightarrow> False
                             | Some d \<Rightarrow> date_ord d < date_ord now) tasks)
       \<and> (\<forall>f out. filter_by_due_date now tasks f = Inr out
            \<longrightarrow> (\<forall>t \<in> set out. due_date t \<noteq> None))"
proof -
  have a: "filter_by_due_date now tasks ''today'' =
           Inr (filter (\<lambda>t. case due_date t of None \<Rightarrow> False
                             | Some d \<Rightarrow> date_ord d = date_ord now) tasks)"
    unfolding filter_by_due_date_def
    by (simp add: filter_loop_eq [where P = "\<lambda>td. td = date_ord now"] due_selected_today)
  have b: "filter_by_due_date now tasks ''tomorrow'' =
              Inr (filter (\<lambda>t. case due_date t of None \<Rightarrow> False
                                | Some d \<Rightarrow> date_ord d = date_ord now + 1) tasks)"
    if "date_ord now + 1 \<le> MAXORDINAL"
    unfolding filter_by_due_date_def
    by (simp add: filter_loop_eq [where P = "\<lambda>td. td = date_ord now + 1"]
          due_selected_tomorrow assms that)
  have c: "filter_by_due_date now tasks ''week'' =
              Inr (filter (\<lambda>t. case due_date t of None \<Rightarrow> False
                                | Some d \<Rightarrow> date_ord d \<le> date_ord now + 7) tasks)"
    if "date_ord now + 7 \<le> MAXORDINAL"
    unfolding filter_by_due_date_def
    by (simp add: filter_loop_eq [where P = "\<lambda>td. td \<le> date_ord now + 7"]
          due_selected_week assms that)
  have d: "filter_by_due_date now tasks ''overdue'' =
           Inr (filter (\<lambda>t. case due_date t of None \<Rightarrow> False
                             | Some d \<Rightarrow> date_ord d < date_ord now) tasks)"
    unfolding filter_by_due_date_def
    by (simp add: filter_loop_eq [where P = "\<lambda>td. td < date_ord now"] due_selected_overdue)
  have e: "\<forall>f out. filter_by_due_date now tasks f = Inr out
             \<longrightarrow> (\<forall>t \<in> set out. due_date t \<noteq> None)"
    unfolding filter_by_due_date_def using filter_loop_dated [where acc = "[]"] by simp
  from a b c d e show ?thesis by blast
qed

theorem filter_by_due_date_buckets_witness:
  "filter_by_due_date \<lparr>date_ord = 738900, hour = 10, minute = 30, second = 0, microsecond = 0\<rparr>
     [\<lparr>task_id = Some ''a'', project_id = ''p'', title = ''due today'',
        due_date = Some \<lparr>date_ord = 738900, hour = 23, minute = 59, second = 59, microsecond = 0\<rparr>,
        priority = 0, status = 0\<rparr>,
      \<lparr>task_id = Some ''b'', project_id = ''p'', title = ''no due date'',
        due_date = None, priority = 5, status = 0\<rparr>,
      \<lparr>task_id = Some ''c'', project_id = ''p'', title = ''due yesterday'',
        due_date = Some \<lparr>date_ord = 738899, hour = 8, minute = 0, second = 0, microsecond = 0\<rparr>,
        priority = 1, status = 0\<rparr>,
      \<lparr>task_id = Some ''d'', project_id = ''p'', title = ''due in a week'',
        due_date = Some \<lparr>date_ord = 738907, hour = 8, minute = 0, second = 0, microsecond = 0\<rparr>,
        priority = 1, status = 0\<rparr>]
     ''week''
   = Inr
     [\<lparr>task_id = Some ''a'', project_id = ''p'', title = ''due today'',
        due_date = Some \<lparr>date_ord = 738900, hour = 23, minute = 59, second = 59, microsecond = 0\<rparr>,
        priority = 0, status = 0\<rparr>,
      \<lparr>task_id = Some ''c'', project_id = ''p'', title = ''due yesterday'',
        due_date = Some \<lparr>date_ord = 738899, hour = 8, minute = 0, second = 0, microsecond = 0\<rparr>,
        priority = 1, status = 0\<rparr>,
      \<lparr>task_id = Some ''d'', project_id = ''p'', title = ''due in a week'',
        due_date = Some \<lparr>date_ord = 738907, hour = 8, minute = 0, second = 0, microsecond = 0\<rparr>,
        priority = 1, status = 0\<rparr>]"
proof -
  let ?now = "\<lparr>date_ord = 738900, hour = 10, minute = 30, second = 0, microsecond = 0\<rparr>"
  have h1: "0 < date_ord ?now"
    by simp
  have h2: "date_ord ?now + 7 \<le> MAXORDINAL"
    by (simp add: MAXORDINAL_def)
  from filter_by_due_date_buckets [OF h1] h2 show ?thesis
    by simp
qed

text \<open>
  C10. A status string whose lower-case form is neither \<^verbatim>\<open>completed\<close> nor \<^verbatim>\<open>open\<close>
  filters nothing and adds no error: the status step returns its input, and \<^verbatim>\<open>list_tasks\<close>
  gives what it gives with no status at all, that is the fetched list filtered by the
  other criteria only.
\<close>

theorem list_tasks_unknown_status:
  assumes "lower s \<noteq> ''completed''" and "lower s \<noteq> ''open''"
  shows "apply_status_filter (Some s) tasks = tasks
       \<and> list_tasks c now pid due_filter prio (Some s) = list_tasks c now pid due_filter prio None"
proof -
  have "apply_status_filter (Some s) ts = ts" for ts
    using assms by (simp add: apply_status_filter_def)
  moreover have "apply_status_filter None ts = ts" for ts
    by (simp add: apply_status_filter_def)
  ultimately show ?thesis
    by (simp add: list_tasks_def split: sum.splits)
qed

theorem list_tasks_unknown_status_witness:
  "lower ''Done'' \<noteq> ''completed'' \<and> lower ''Done'' \<noteq> ''open''
   \<and> list_tasks
        \<lparr>get_projects = Inr [],
         get_project_data = (\<lambda>p. Inr
           [\<lparr>task_id = Some ''a'', project_id = ''p'', title = ''open task'',
              due_date = None, priority = 0, status = 0\<rparr>,
            \<lparr>task_id = Some ''b'', project_id = ''p'', title = ''completed task'',
              due_date = None, priority = 0, status = 2\<rparr>])\<rparr>
        \<lparr>date_ord = 738900, hour = 10, minute = 30, second = 0, microsecond = 0\<rparr>
        (Some ''p'') None None (Some ''Done'')
     = (Inr
           [\<lparr>task_id = Some ''a'', project_id = ''p'', title = ''open task'',
              due_date = None, priority = 0, status = 0\<rparr>,
            \<lparr>task_id = Some ''b'', project_id = ''p'', title = ''completed task'',
              due_date = None, priority = 0, status = 2\<rparr>] :: unit list_error + task list)"
  (is "_ \<and> _ \<and> list_tasks ?c ?now ?pid None None ?st = ?r")
proof -
  have h1: "lower ''Done'' \<noteq> ''completed''"
    by (simp add: lower_def lower_char_def)
  have h2: "lower ''Done'' \<noteq> ''open''"
    by (simp add: lower_def lower_char_def)
  have none: "list_tasks ?c ?now ?pid None None None = ?r"
    by (simp add: list_tasks_def fetch_tasks_def truthy_def apply_due_filter_def
          apply_priority_filter_def apply_status_filter_def)
  have "list_tasks ?c ?now ?pid None None ?st = list_tasks ?c ?now ?pid None None None"
    using list_tasks_unknown_status [OF h1 h2] by blast
  with none h1 h2 show ?thesis
    by simp
qed

subsection \<open>The daily plan's order\<close>










section \<open>Properties of the token storage and the handler\<close>

text \<open>
  C7. Whatever the file holds and whatever the library calls do, \<^verbatim>\<open>load_tokens\<close> returns a
  value and raises nothing; when reading, decrypting, decoding or parsing fails (a key that
  no longer fits the stored blob makes decryption fail) the value is \<^verbatim>\<open>None\<close>.
\<close>

theorem load_tokens_never_raises:
  "(\<exists>r. load_tokens decrypt decode json_loads file = Inr r)
   \<and> (\<forall>file_read e. file = Some file_read
         \<and> read_and_parse decrypt decode json_loads file_read = Inl e
        \<longrightarrow> load_tokens decrypt decode json_loads file = Inr None)
   \<and> (\<forall>blob e. file = Some (Inr blob) \<and> decrypt blob = Inl e
        \<longrightarrow> load_tokens decrypt decode json_loads file = Inr None)"
  by (auto simp: load_tokens_def try_except_def read_and_parse_def split: option.splits sum.splits)

theorem load_tokens_never_raises_witness:
  "load_tokens (\<lambda>blob. Inl ''InvalidToken'') (\<lambda>b. Inr b) (\<lambda>s. Inr (Some s))
     (Some (Inr ''gAAAAAB'')) = (Inr None :: string + string option)"
proof -
  have "(\<lambda>blob::bytes. (Inl ''InvalidToken'' :: string + bytes)) ''gAAAAAB'' = Inl ''InvalidToken''"
    by simp
  with load_tokens_never_raises
         [of "\<lambda>blob. Inl ''InvalidToken''" "\<lambda>b. Inr b" "\<lambda>s. Inr (Some s)" "Some (Inr ''gAAAAAB'')"]
  show ?thesis by blast
qed

text \<open>
  C9. A loaded record without \<^verbatim>\<open>saved_at\<close> is taken as saved at the first clock reading:
  when the second reading is no more than an hour after the first, the stored access token
  is returned and no refresh is attempted, whatever the record's real age.
\<close>

theorem get_access_token_no_saved_at:
  assumes "saved_at toks = None" and "datetime_diff now2 now1 \<le> one_hour"
  shows "get_access_token refresh (Some toks) now1 now2 = ([], Inr (access_token toks))"
  using assms by (simp add: get_access_token_def tokens_empty_def isoformat_def fromisoformat_def)

theorem get_access_token_no_saved_at_witness:
  "datetime_diff \<lparr>date_ord = 738900, hour = 10, minute = 30, second = 5, microsecond = 0\<rparr>
                 \<lparr>date_ord = 738900, hour = 10, minute = 30, second = 0, microsecond = 0\<rparr>
     \<le> one_hour
   \<and> get_access_token (\<lambda>rt. None)
        (Some \<lparr>access_token = Some ''A1'', refresh_token = Some (Some ''R1''), saved_at = None,
               other_keys = [''expires_in'']\<rparr>)
        \<lparr>date_ord = 738900, hour = 10, minute = 30, second = 0, microsecond = 0\<rparr>
        \<lparr>date_ord = 738900, hour = 10, minute = 30, second = 5, microsecond = 0\<rparr>
     = ([], Inr (Some ''A1''))"
proof -
  let ?toks = "\<lparr>access_token = Some ''A1'', refresh_token = Some (Some ''R1''),
                 saved_at = None, other_keys = [''expires_in'']\<rparr>"
  have h1: "saved_at ?toks = None"
    by simp
  have h2: "datetime_diff
              \<lparr>date_ord = 738900, hour = 10, minute = 30, second = 5, microsecond = 0\<rparr>
              \<lparr>date_ord = 738900, hour = 10, minute = 30, second = 0, microsecond = 0\<rparr>
            \<le> one_hour"
    by (simp add: datetime_diff_def to_micros_def one_hour_def)
  from get_access_token_no_saved_at [OF h1 h2, of "\<lambda>rt. None"] h2 show ?thesis
    by simp
qed

text \<open>
  C1. For a stored record whose \<^verbatim>\<open>saved_at\<close> is a datetime: when the age (the second clock
  reading minus \<^verbatim>\<open>saved_at\<close>) is at most one hour, the stored access token is returned
  unchanged and \<^verbatim>\<open>refresh_token\<close> is not called; when the age is more than one hour and the
  record has a \<^verbatim>\<open>refresh_token\<close> key, the refresh is called once, with the value under that
  key, and the new record's access token is returned (nothing when the refresh raises);
  when the age is more than one hour and the key is absent, nothing is returned and no
  refresh is called. The test is a strict \<^verbatim>\<open>>\<close>: at exactly one hour the cached token is
  returned.
\<close>

theorem get_access_token_threshold:
  assumes "saved_at toks = Some (IsoText saved)"
  shows "(datetime_diff now2 saved \<le> one_hour \<longrightarrow>
            get_access_token refresh (Some toks) now1 now2 = ([], Inr (access_token toks)))
       \<and> (one_hour < datetime_diff now2 saved \<longrightarrow>
            get_access_token refresh (Some toks) now1 now2 =
              (case refresh_token toks of
                 None \<Rightarrow> ([], Inr None)
               | Some rt \<Rightarrow> ([rt], Inr (case refresh rt of None \<Rightarrow> None
                                         | Some toks' \<Rightarrow> access_token toks'))))"
  using assms
  by (auto simp: get_access_token_def tokens_empty_def fromisoformat_def split: option.splits)

theorem get_access_token_threshold_witness:
  "one_hour < datetime_diff
       \<lparr>date_ord = 738900, hour = 12, minute = 30, second = 0, microsecond = 0\<rparr>
       \<lparr>date_ord = 738900, hour = 10, minute = 30, second = 0, microsecond = 0\<rparr>
   \<and> get_access_token
        (\<lambda>rt. if rt = Some ''R1''
               then Some \<lparr>access_token = Some ''A2'', refresh_token = Some (Some ''R2''),
                          saved_at = None, other_keys = []\<rparr>
               else None)
        (Some \<lparr>access_token = Some ''A1'', refresh_token = Some (Some ''R1''),
               saved_at = Some (IsoText
                 \<lparr>date_ord = 738900, hour = 10, minute = 30, second = 0, microsecond = 0\<rparr>),
               other_keys = []\<rparr>)
        \<lparr>date_ord = 738900, hour = 12, minute = 30, second = 0, microsecond = 0\<rparr>
        \<lparr>date_ord = 738900, hour = 12, minute = 30, second = 0, microsecond = 0\<rparr>
     = ([Some ''R1''], Inr (Some ''A2''))
   \<and> datetime_diff
       \<lparr>date_ord = 738900, hour = 11, minute = 0, second = 0, microsecond = 0\<rparr>
       \<lparr>date_ord = 738900, hour = 10, minute = 30, second = 0, microsecond = 0\<rparr> \<le> one_hour
   \<and> get_access_token
        (\<lambda>rt. if rt = Some ''R1''
               then Some \<lparr>access_token = Some ''A2'', refresh_token = Some (Some ''R2''),
                          saved_at = None, other_keys = []\<rparr>
               else None)
        (Some \<lparr>access_token = Some ''A1'', refresh_token = Some (Some ''R1''),
               saved_at = Some (IsoText
                 \<lparr>date_ord = 738900, hour = 10, minute = 30, second = 0, microsecond = 0\<rparr>),
               other_keys = []\<rparr>)
        \<lparr>date_ord = 738900, hour = 11, minute = 0, second = 0, microsecond = 0\<rparr>
        \<lparr>date_ord = 738900, hour = 11, minute = 0, second = 0, microsecond = 0\<rparr>
     = ([], Inr (Some ''A1''))"
  (is "_ < datetime_diff ?late ?saved \<and> get_access_token ?refresh (Some ?toks) _ _ = _
       \<and> datetime_diff ?early _ \<le> _ \<and> _")
proof -
  have h: "saved_at ?toks = Some (IsoText ?saved)"
    by simp
  have l: "one_hour < datetime_diff ?late ?saved"
    by (simp add: datetime_diff_def to_micros_def one_hour_def)
  have e: "datetime_diff ?early ?saved \<le> one_hour"
    by (simp add: datetime_diff_def to_micros_def one_hour_def)
  have r1: "get_access_token ?refresh (Some ?toks) ?late ?late = ([Some ''R1''], Inr (Some ''A2''))"
    using get_access_token_threshold [OF h, of ?late ?refresh ?late] l by simp
  have r2: "get_access_token ?refresh (Some ?toks) ?early ?early = ([], Inr (Some ''A1''))"
    using get_access_token_threshold [OF h, of ?early ?refresh ?early] e by simp
  from l r1 e r2 show ?thesis
    by (intro conjI)
qed

text \<open>
  A record exactly one hour old that holds a refresh token: the age is at least one hour,
  yet no refresh is called and the cached token is returned.
\<close>

theorem get_access_token_one_hour_counterexample:
  "one_hour \<le> datetime_diff
       \<lparr>date_ord = 738900, hour = 11, minute = 30, second = 0, microsecond = 0\<rparr>
       \<lparr>date_ord = 738900, hour = 10, minute = 30, second = 0, microsecond = 0\<rparr>
   \<and> get_access_token
        (\<lambda>rt. if rt = Some ''R1''
               then Some \<lparr>access_token = Some ''A2'', refresh_token = Some (Some ''R2''),
                          saved_at = None, other_keys = []\<rparr>
               else None)
        (Some \<lparr>access_token = Some ''A1'', refresh_token = Some (Some ''R1''),
               saved_at = Some (IsoText
                 \<lparr>date_ord = 738900, hour = 10, minute = 30, second = 0, microsecond = 0\<rparr>),
               other_keys = []\<rparr>)
        \<lparr>date_ord = 738900, hour = 11, minute = 30, second = 0, microsecond = 0\<rparr>
        \<lparr>date_ord = 738900, hour = 11, minute = 30, second = 0, microsecond = 0\<rparr>
     = ([], Inr (Some ''A1''))"
  by (simp add: get_access_token_def tokens_empty_def fromisoformat_def datetime_diff_def
        to_micros_def one_hour_def)

text \<open>
  Neither the callback nor the polling loop touches the listener, and the only exception
  of the loop is the timeout.
\<close>

lemma serve_server: "server (serve h reqs) = server h"
  unfolding serve_def
  by (induction reqs arbitrary: h) (simp_all add: handle_callback_def)

lemma wait_loop_server:
  "wait_loop timeout start_time ticks h = Some (r, h') \<Longrightarrow> server h' = server h"
proof (induction ticks arbitrary: h)
  case Nil
  then show ?case by (simp split: if_splits)
next
  case (Cons t ts)
  show ?case
  proof (cases "auth_code h = None \<and> auth_error h = None
                \<and> \<not> clock t - start_time > timeout * 1000")
    case True
    with Cons.prems have "wait_loop timeout start_time ts (serve h (requests t)) = Some (r, h')"
      by simp
    from Cons.IH [OF this] show ?thesis by (simp add: serve_server)
  next
    case False
    with Cons.prems show ?thesis by (auto split: if_splits)
  qed
qed

lemma wait_loop_error:
  "wait_loop timeout start_time ticks h = Some (Inl e, h') \<Longrightarrow> e = TimeoutError"
proof (induction ticks arbitrary: h)
  case Nil
  then show ?case by (simp split: if_splits)
next
  case (Cons t ts)
  then show ?case by (auto split: if_splits)
qed

text \<open>
  C2. The exits of \<^verbatim>\<open>wait_for_authorization\<close>: when it raises \<^verbatim>\<open>TimeoutError\<close> the listener
  it started is still listening, since the \<^verbatim>\<open>raise\<close> inside the loop leaves the function
  before the \<^verbatim>\<open>cleanup\<close> that follows the loop; when it returns the code or raises the
  provider's error, the listener has been stopped.
\<close>

theorem wait_for_authorization_exit_paths:
  assumes "wait_for_authorization port_free timeout start_time ticks h = Some (res, h')"
  shows "(res = Inl TimeoutError \<longrightarrow> server h' = Some Listening)
       \<and> ((\<exists>c. res = Inr c) \<or> (\<exists>m. res = Inl (AuthorizationError m))
            \<longrightarrow> server h' = Some Stopped)"
proof (cases port_free)
  case False
  with assms show ?thesis
    by (auto simp: wait_for_authorization_def run_server_def)
next
  case True
  define h1 where "h1 = h\<lparr>server := Some Listening\<rparr>"
  have run: "run_server port_free h = Inr h1"
    using True by (simp add: run_server_def h1_def)
  obtain r h2 where loop: "wait_loop timeout start_time ticks h1 = Some (r, h2)"
    using assms unfolding wait_for_authorization_def run
    by (auto split: option.splits)
  have srv: "server h2 = Some Listening"
    using wait_loop_server [OF loop] by (simp add: h1_def)
  show ?thesis
  proof (cases r)
    case (Inl e)
    with wait_loop_error loop have "r = Inl TimeoutError" by blast
    with assms loop srv show ?thesis
      unfolding wait_for_authorization_def run by auto
  next
    case (Inr u)
    with assms loop srv show ?thesis
      unfolding wait_for_authorization_def run
      by (auto simp: cleanup_def Let_def split: option.splits if_splits)
  qed
qed

theorem wait_for_authorization_exit_paths_witness:
  "wait_for_authorization True 300 0
      [\<lparr>clock = 0, requests = []\<rparr>, \<lparr>clock = 300100, requests = []\<rparr>]
      \<lparr>server = None, auth_code = None, auth_error = None\<rparr>
     = Some (Inl TimeoutError, \<lparr>server = Some Listening, auth_code = None, auth_error = None\<rparr>)
   \<and> wait_for_authorization True 300 0
      [\<lparr>clock = 0, requests = [\<lparr>query_code = Some ''c0de'', query_error = None\<rparr>]\<rparr>,
       \<lparr>clock = 100, requests = []\<rparr>]
      \<lparr>server = None, auth_code = None, auth_error = None\<rparr>
     = Some (Inr (Some ''c0de''),
             \<lparr>server = Some Stopped, auth_code = Some ''c0de'', auth_error = None\<rparr>)
   \<and> server \<lparr>server = Some Listening, auth_code = None, auth_error = None\<rparr> = Some Listening"
proof -
  have run: "wait_for_authorization True 300 0
      [\<lparr>clock = 0, requests = []\<rparr>, \<lparr>clock = 300100, requests = []\<rparr>]
      \<lparr>server = None, auth_code = None, auth_error = None\<rparr>
     = Some (Inl TimeoutError, \<lparr>server = Some Listening, auth_code = None, auth_error = None\<rparr>)"
    by (simp add: wait_for_authorization_def run_server_def serve_def)
  have ok: "wait_for_authorization True 300 0
      [\<lparr>clock = 0, requests = [\<lparr>query_code = Some ''c0de'', query_error = None\<rparr>]\<rparr>,
       \<lparr>clock = 100, requests = []\<rparr>]
      \<lparr>server = None, auth_code = None, auth_error = None\<rparr>
     = Some (Inr (Some ''c0de''),
             \<lparr>server = Some Stopped, auth_code = Some ''c0de'', auth_error = None\<rparr>)"
    by (simp add: wait_for_authorization_def run_server_def serve_def handle_callback_def
          truthy_def cleanup_def)
  from wait_for_authorization_exit_paths [OF run] run ok show ?thesis
    by simp
qed

end
